theory Spec2Isabelle
  imports Complex_Main "HOL-Library.Sublist"
begin

section \<open>Values and strings of the route handler\<close>

text \<open>
  The generate route is TypeScript whose interesting values are untyped at run time: the
  analysis is whatever \<^verbatim>\<open>JSON.parse\<close> returns, and the examples of a request are
  \<^verbatim>\<open>any[]\<close>. They are modelled by one datatype of JavaScript values. A number is
  an exact rational (the rounding of IEEE doubles is not modelled). A string inside a value
  is a list of UTF-16 code units, since \<^verbatim>\<open>JSON.parse\<close> makes any code unit from an
  escape. The texts that come from outside (the replies of the gateway, the topic, the
  industry and the formats of a request) are lists of 8-bit characters, read as the code
  units below 256; \<open>js\<close> takes such a text to its code units.
\<close>

type_synonym ustring = "nat list"

definition js :: "string \<Rightarrow> ustring" where
  "js s = map of_char s"

datatype jsval =
    Undefined
  | Null
  | Bool bool
  | Num rat
  | Str ustring
  | Arr "jsval list"
  | Obj "(ustring \<times> jsval) list"

text \<open>JavaScript's ToBoolean, as used by \<^verbatim>\<open>if (x)\<close>, \<^verbatim>\<open>!x\<close>, \<^verbatim>\<open>&&\<close> and \<^verbatim>\<open>||\<close>.\<close>

fun truthy :: "jsval \<Rightarrow> bool" where
  "truthy Undefined = False"
| "truthy Null = False"
| "truthy (Bool b) = b"
| "truthy (Num q) = (q \<noteq> 0)"
| "truthy (Str s) = (s \<noteq> [])"
| "truthy (Arr xs) = True"
| "truthy (Obj kvs) = True"

text \<open>
  Property read \<^verbatim>\<open>v.k\<close> for the property names the handler reads (content, text, type,
  tone, style, terminology, structure), none of which a built-in prototype defines: an
  object yields its own property, every other value \<^verbatim>\<open>undefined\<close>. The handler reads
  properties of values it has tested to be truthy only, except at the one place that
  \<open>brandVoiceContext\<close> below models.
\<close>

fun js_get :: "jsval \<Rightarrow> ustring \<Rightarrow> jsval" where
  "js_get (Obj kvs) k = (case map_of kvs k of Some v \<Rightarrow> v | None \<Rightarrow> Undefined)"
| "js_get v k = Undefined"

text \<open>\<^verbatim>\<open>a || b\<close>\<close>

definition js_or :: "jsval \<Rightarrow> jsval \<Rightarrow> jsval" where
  "js_or a b = (if truthy a then a else b)"

text \<open>
  White space of \<^verbatim>\<open>String.prototype.trim\<close> and of the regular expression class
  \<^verbatim>\<open>\s\<close>, among the code units below 256: TAB, LF, VT, FF, CR, SPACE and NBSP.
\<close>

definition is_space :: "char \<Rightarrow> bool" where
  "is_space c = (of_char c \<in> {9, 10, 11, 12, 13, 32, 160 :: nat})"

definition trim :: "string \<Rightarrow> string" where
  "trim s = rev (dropWhile is_space (rev (dropWhile is_space s)))"

text \<open>
  \<^verbatim>\<open>String.prototype.toLowerCase\<close> on code units below 256: the letters A to Z and the
  Latin-1 capitals 0xC0 to 0xDE (without the multiplication sign 0xD7) move up by 0x20,
  that is, bit 5 is set.
\<close>

definition is_upper :: "char \<Rightarrow> bool" where
  "is_upper c = (let n = (of_char c :: nat) in (65 \<le> n \<and> n \<le> 90) \<or> (192 \<le> n \<and> n \<le> 222 \<and> n \<noteq> 215))"

definition lower_char :: "char \<Rightarrow> char" where
  "lower_char c =
     (if is_upper c
      then Char (digit0 c) (digit1 c) (digit2 c) (digit3 c) (digit4 c) True (digit6 c) (digit7 c)
      else c)"

definition toLowerCase :: "string \<Rightarrow> string" where
  "toLowerCase s = map lower_char s"

text \<open>
  \<^verbatim>\<open>toLowerCase\<close> of a string of code units, as far as it can be part of a Latin-1 text:
  the lower case of a code unit when that is one Latin-1 character. Above 255 these are the
  capital Y with diaeresis, the capital sharp s, the Kelvin sign and the Angstrom sign;
  the lower case of every other code unit above 255 holds a code unit above 255.
  \<open>lowered_term\<close> is the lower case of a term when all of it is Latin-1.
\<close>

definition lower_latin1 :: "nat \<Rightarrow> char option" where
  "lower_latin1 u =
     (if u < 256 then Some (lower_char (char_of u))
      else if u = 0x178 then Some (CHR 0xFF)
      else if u = 0x1E9E then Some (CHR 0xDF)
      else if u = 0x212A then Some CHR ''k''
      else if u = 0x212B then Some (CHR 0xE5)
      else None)"

definition lowered_term :: "ustring \<Rightarrow> string option" where
  "lowered_term t = those (map lower_latin1 t)"

text \<open>\<^verbatim>\<open>s.includes(t)\<close>: \<open>t\<close> is a contiguous part of \<open>s\<close>.\<close>

definition js_includes :: "string \<Rightarrow> string \<Rightarrow> bool" where
  "js_includes s t = sublist t s"

section \<open>The two regular expressions of the analyzer\<close>

text \<open>
  \<open>jsonMatch\<close> is \<^verbatim>\<open>text.match(/```(?:json)?\s*(\{[\s\S]*\})\s*```/)\<close>, returning
  group 1. The match starts at the leftmost fence after which the rest of the pattern
  matches. At a fence, the optional tag and the white space are forced (neither a letter of
  the tag nor white space can be the brace that has to follow); the greedy star then gives
  the group its longest extent: it ends at the last closing brace that is followed by white
  space and a fence.
\<close>

definition fence :: string where
  "fence = [CHR 0x60, CHR 0x60, CHR 0x60]"

fun longest_close :: "string \<Rightarrow> string option" where
  "longest_close [] = None"
| "longest_close (c # cs) =
     (case longest_close cs of
        Some b \<Rightarrow> Some (c # b)
      | None \<Rightarrow> if c = CHR ''}'' \<and> prefix fence (dropWhile is_space cs) then Some [c] else None)"

definition jsonMatch_at :: "string \<Rightarrow> string option" where
  "jsonMatch_at s =
     (if prefix fence s then
        (let r1 = drop 3 s;
             r2 = (if prefix ''json'' r1 then drop 4 r1 else r1)
         in case dropWhile is_space r2 of
              [] \<Rightarrow> None
            | c # r \<Rightarrow> if c = CHR ''{'' then map_option (Cons c) (longest_close r) else None)
      else None)"

fun jsonMatch :: "string \<Rightarrow> string option" where
  "jsonMatch [] = None"
| "jsonMatch (c # cs) =
     (case jsonMatch_at (c # cs) of Some g \<Rightarrow> Some g | None \<Rightarrow> jsonMatch cs)"

text \<open>
  \<open>jsonObjectMatch\<close> is \<^verbatim>\<open>text.match(/\{[\s\S]*\}/)\<close>, returning the whole match: it
  starts at the first opening brace and, the star being greedy, ends at the last closing
  brace of the text.
\<close>

definition jsonObjectMatch :: "string \<Rightarrow> string option" where
  "jsonObjectMatch s =
     (case dropWhile (\<lambda>c. c \<noteq> CHR ''{'') s of
        [] \<Rightarrow> None
      | c # r \<Rightarrow>
          if CHR ''}'' \<in> set r
          then Some (c # rev (dropWhile (\<lambda>d. d \<noteq> CHR ''}'') (rev r)))
          else None)"

text \<open>
  Lines 135 to 144 of the route: from the trimmed reply to the text handed to
  \<^verbatim>\<open>JSON.parse\<close>.
\<close>

definition extract_json :: "string \<Rightarrow> string" where
  "extract_json trimmed =
     (let text = (case jsonMatch trimmed of Some g \<Rightarrow> g | None \<Rightarrow> trimmed)
      in case jsonObjectMatch text of Some m \<Rightarrow> m | None \<Rightarrow> text)"

section \<open>JSON.parse\<close>

text \<open>
  \<^verbatim>\<open>JSON.parse\<close> is a built-in of the language. It is modelled by a lexer and a
  pushdown recogniser for the JSON grammar (ECMA-404): result \<open>None\<close> stands for the
  SyntaxError it throws. The strings of the result are lists of code units: a character of
  the text stands for its own code unit, an escape \<^verbatim>\<open>\uXXXX\<close> for any code unit.
\<close>

datatype token =
    LBrace | RBrace | LBracket | RBracket | Colon | Comma
  | TString ustring | TNumber rat | TTrue | TFalse | TNull

definition is_json_space :: "char \<Rightarrow> bool" where
  "is_json_space c = (of_char c \<in> {9, 10, 13, 32 :: nat})"

definition is_digit :: "char \<Rightarrow> bool" where
  "is_digit c = (48 \<le> (of_char c :: nat) \<and> (of_char c :: nat) \<le> 57)"

definition is_numchar :: "char \<Rightarrow> bool" where
  "is_numchar c = (is_digit c \<or> c \<in> {CHR ''+'', CHR ''-'', CHR ''.'', CHR ''e'', CHR ''E''})"

definition hex_val :: "char \<Rightarrow> nat option" where
  "hex_val c =
     (let n = (of_char c :: nat) in
      if 48 \<le> n \<and> n \<le> 57 then Some (n - 48)
      else if 65 \<le> n \<and> n \<le> 70 then Some (n - 55)
      else if 97 \<le> n \<and> n \<le> 102 then Some (n - 87)
      else None)"

definition unicode_escape :: "string \<Rightarrow> nat option" where
  "unicode_escape hs =
     (case map hex_val hs of
        [Some a, Some b, Some c, Some d] \<Rightarrow> Some (((a * 16 + b) * 16 + c) * 16 + d)
      | _ \<Rightarrow> None)"

definition escape_char :: "char \<Rightarrow> nat option" where
  "escape_char e =
     (if e = CHR 0x22 then Some 0x22
      else if e = CHR 0x5C then Some 0x5C
      else if e = CHR ''/'' then Some 0x2F
      else if e = CHR ''b'' then Some 0x08
      else if e = CHR ''f'' then Some 0x0C
      else if e = CHR ''n'' then Some 0x0A
      else if e = CHR ''r'' then Some 0x0D
      else if e = CHR ''t'' then Some 0x09
      else None)"

text \<open>
  The characters of a string literal after its opening quote: the decoded code units and
  the input after the closing quote.
\<close>

fun lex_string :: "ustring \<Rightarrow> string \<Rightarrow> (ustring \<times> string) option" where
  "lex_string acc [] = None"
| "lex_string acc (c # cs) =
     (if c = CHR 0x22 then Some (rev acc, cs)
      else if c = CHR 0x5C then
        (case cs of
           [] \<Rightarrow> None
         | e # cs' \<Rightarrow>
             if e = CHR ''u'' then
               (case unicode_escape (take 4 cs') of
                  None \<Rightarrow> None
                | Some u \<Rightarrow> lex_string (u # acc) (drop 4 cs'))
             else
               (case escape_char e of
                  None \<Rightarrow> None
                | Some u \<Rightarrow> lex_string (u # acc) cs'))
      else if (of_char c :: nat) < 32 then None
      else lex_string (of_char c # acc) cs)"

definition digits_value :: "string \<Rightarrow> nat" where
  "digits_value ds = foldl (\<lambda>n d. 10 * n + (of_char d - 48)) 0 ds"

text \<open>
  The value of a number literal
  \<^verbatim>\<open>-?(0|[1-9][0-9]*)(\.[0-9]+)?([eE][+-]?[0-9]+)?\<close>, \<open>None\<close> for any other text.
\<close>

definition number_value :: "string \<Rightarrow> rat option" where
  "number_value s =
     (let neg = (case s of c # r \<Rightarrow> c = CHR ''-'' | [] \<Rightarrow> False);
          s1 = (if neg then tl s else s);
          ip = takeWhile is_digit s1;
          s2 = dropWhile is_digit s1;
          frac = (case s2 of c # r \<Rightarrow> c = CHR ''.'' | [] \<Rightarrow> False);
          fp = (if frac then takeWhile is_digit (tl s2) else []);
          s3 = (if frac then dropWhile is_digit (tl s2) else s2);
          ex = (case s3 of c # r \<Rightarrow> c = CHR ''e'' \<or> c = CHR ''E'' | [] \<Rightarrow> False);
          s4 = (if ex then tl s3 else s3);
          esign = (ex \<and> (case s4 of c # r \<Rightarrow> c = CHR ''-'' \<or> c = CHR ''+'' | [] \<Rightarrow> False));
          eneg = (esign \<and> (case s4 of c # r \<Rightarrow> c = CHR ''-'' | [] \<Rightarrow> False));
          s5 = (if esign then tl s4 else s4);
          ep = (if ex then takeWhile is_digit s5 else []);
          s6 = (if ex then dropWhile is_digit s5 else s5)
      in if ip = [] \<or> (1 < length ip \<and> hd ip = CHR ''0'') \<or> (frac \<and> fp = []) \<or> (ex \<and> ep = []) \<or> s6 \<noteq> []
         then None
         else Some ((if neg then - 1 else 1)
                    * (of_nat (digits_value ip) + of_nat (digits_value fp) / 10 ^ length fp)
                    * (if eneg then 1 / 10 ^ digits_value ep else 10 ^ digits_value ep)))"

lemma lex_string_shorter:
  "lex_string acc cs = Some (s, rest) \<Longrightarrow> length rest < length cs"
proof (induction acc cs rule: lex_string.induct)
  case (1 acc)
  then show ?case by simp
next
  case (2 acc c cs)
  show ?case
  proof (cases "c = CHR 0x22")
    case True
    with "2.prems" show ?thesis by simp
  next
    case nq: False
    show ?thesis
    proof (cases "c = CHR 0x5C")
      case True
      show ?thesis
      proof (cases cs)
        case Nil
        with "2.prems" nq True show ?thesis by simp
      next
        case (Cons e cs')
        show ?thesis
        proof (cases "e = CHR ''u''")
          case eu: True
          then obtain ch where u: "unicode_escape (take 4 cs') = Some ch"
            and r: "lex_string (ch # acc) (drop 4 cs') = Some (s, rest)"
            using "2.prems" nq True Cons by (simp split: option.splits)
          from "2.IH"(1) [OF nq True Cons eu u r] Cons show ?thesis by simp
        next
          case eu: False
          then obtain ch where u: "escape_char e = Some ch"
            and r: "lex_string (ch # acc) cs' = Some (s, rest)"
            using "2.prems" nq True Cons by (simp split: option.splits)
          from "2.IH"(2) [OF nq True Cons eu u r] Cons show ?thesis by simp
        qed
      qed
    next
      case nb: False
      show ?thesis
      proof (cases "(of_char c :: nat) < 32")
        case True
        with "2.prems" nq nb show ?thesis by simp
      next
        case False
        with "2.prems" nq nb have "lex_string (of_char c # acc) cs = Some (s, rest)" by simp
        from "2.IH"(3) [OF nq nb False this] show ?thesis by simp
      qed
    qed
  qed
qed

function lex :: "string \<Rightarrow> token list option" where
  "lex [] = Some []"
| "lex (c # cs) =
     (if is_json_space c then lex cs
      else if c = CHR ''{'' then map_option (Cons LBrace) (lex cs)
      else if c = CHR ''}'' then map_option (Cons RBrace) (lex cs)
      else if c = CHR ''['' then map_option (Cons LBracket) (lex cs)
      else if c = CHR '']'' then map_option (Cons RBracket) (lex cs)
      else if c = CHR '':'' then map_option (Cons Colon) (lex cs)
      else if c = CHR '','' then map_option (Cons Comma) (lex cs)
      else if c = CHR 0x22 then
        (case lex_string [] cs of
           None \<Rightarrow> None
         | Some (s, rest) \<Rightarrow> map_option (Cons (TString s)) (lex rest))
      else if c = CHR ''-'' \<or> is_digit c then
        (case number_value (c # takeWhile is_numchar cs) of
           None \<Rightarrow> None
         | Some q \<Rightarrow> map_option (Cons (TNumber q)) (lex (dropWhile is_numchar cs)))
      else if prefix ''true'' (c # cs) then map_option (Cons TTrue) (lex (drop 3 cs))
      else if prefix ''false'' (c # cs) then map_option (Cons TFalse) (lex (drop 4 cs))
      else if prefix ''null'' (c # cs) then map_option (Cons TNull) (lex (drop 3 cs))
      else None)"
  by pat_completeness auto
termination
  by (relation "measure length")
     (auto simp: le_imp_less_Suc length_dropWhile_le dest: lex_string_shorter)

text \<open>
  The recogniser reads the tokens from left to right. A frame is an enclosing array or
  object whose next element is being read. A later member of an object replaces the value
  of an earlier one of the same name, and the members are kept in the order of the
  properties of a JavaScript object: the array indices (canonical numerals up to
  \<open>2\<^sup>3\<^sup>2 - 2\<close>) in ascending order first, then the other names in the order in which
  they were first met.
\<close>

datatype frame =
    InArr "jsval list"
  | InObj "(ustring \<times> jsval) list" ustring

datatype pstate =
    WantValue "frame list"
  | ArrStart "frame list"
  | ArrNext "jsval list" "frame list"
  | ObjStart "frame list"
  | WantKey "(ustring \<times> jsval) list" "frame list"
  | WantColon "(ustring \<times> jsval) list" ustring "frame list"
  | ObjNext "(ustring \<times> jsval) list" "frame list"
  | Done jsval
  | Bad

definition index_value :: "ustring \<Rightarrow> int" where
  "index_value k = foldl (\<lambda>n d. 10 * n + (int d - 48)) 0 k"

definition is_index :: "ustring \<Rightarrow> bool" where
  "is_index k =
     (k \<noteq> [] \<and> list_all (\<lambda>d. 48 \<le> d \<and> d \<le> 57) k \<and> (k = [48] \<or> hd k \<noteq> 48)
      \<and> index_value k \<le> 4294967294)"

fun replace_member :: "(ustring \<times> jsval) list \<Rightarrow> ustring \<Rightarrow> jsval \<Rightarrow> (ustring \<times> jsval) list" where
  "replace_member [] k v = []"
| "replace_member (p # ps) k v = (if fst p = k then (k, v) # ps else p # replace_member ps k v)"

fun insert_index :: "(ustring \<times> jsval) list \<Rightarrow> ustring \<Rightarrow> jsval \<Rightarrow> (ustring \<times> jsval) list" where
  "insert_index [] k v = [(k, v)]"
| "insert_index (p # ps) k v =
     (if is_index (fst p) \<and> index_value (fst p) < index_value k then p # insert_index ps k v
      else (k, v) # p # ps)"

definition put_member :: "(ustring \<times> jsval) list \<Rightarrow> ustring \<Rightarrow> jsval \<Rightarrow> (ustring \<times> jsval) list" where
  "put_member ps k v =
     (if k \<in> fst ` set ps then replace_member ps k v
      else if is_index k then insert_index ps k v
      else ps @ [(k, v)])"

fun complete :: "jsval \<Rightarrow> frame list \<Rightarrow> pstate" where
  "complete v [] = Done v"
| "complete v (InArr es # fs) = ArrNext (es @ [v]) fs"
| "complete v (InObj ms k # fs) = ObjNext (put_member ms k v) fs"

fun start_value :: "token \<Rightarrow> frame list \<Rightarrow> pstate" where
  "start_value (TString s) fs = complete (Str s) fs"
| "start_value (TNumber q) fs = complete (Num q) fs"
| "start_value TTrue fs = complete (Bool True) fs"
| "start_value TFalse fs = complete (Bool False) fs"
| "start_value TNull fs = complete Null fs"
| "start_value LBracket fs = ArrStart fs"
| "start_value LBrace fs = ObjStart fs"
| "start_value t fs = Bad"

fun pstep :: "pstate \<Rightarrow> token \<Rightarrow> pstate" where
  "pstep (WantValue fs) t = start_value t fs"
| "pstep (ArrStart fs) t = (if t = RBracket then complete (Arr []) fs else start_value t (InArr [] # fs))"
| "pstep (ArrNext es fs) t =
     (if t = Comma then WantValue (InArr es # fs)
      else if t = RBracket then complete (Arr es) fs
      else Bad)"
| "pstep (ObjStart fs) t =
     (case t of RBrace \<Rightarrow> complete (Obj []) fs | TString k \<Rightarrow> WantColon [] k fs | _ \<Rightarrow> Bad)"
| "pstep (WantKey ms fs) t = (case t of TString k \<Rightarrow> WantColon ms k fs | _ \<Rightarrow> Bad)"
| "pstep (WantColon ms k fs) t = (if t = Colon then WantValue (InObj ms k # fs) else Bad)"
| "pstep (ObjNext ms fs) t =
     (if t = Comma then WantKey ms fs
      else if t = RBrace then complete (Obj ms) fs
      else Bad)"
| "pstep (Done v) t = Bad"
| "pstep Bad t = Bad"

definition parse_tokens :: "token list \<Rightarrow> jsval option" where
  "parse_tokens ts = (case foldl pstep (WantValue []) ts of Done v \<Rightarrow> Some v | _ \<Rightarrow> None)"

definition JSON_parse :: "string \<Rightarrow> jsval option" where
  "JSON_parse s = (case lex s of None \<Rightarrow> None | Some ts \<Rightarrow> parse_tokens ts)"

section \<open>The Model Gateway\<close>

text \<open>
  \<^verbatim>\<open>anthropic.messages.create\<close> either throws or returns a message with a list of content
  blocks. What the hosted model answers is not a function of the prompt, so the outcomes are
  inputs of the model: one for the analysis call and one for the call made for the format at
  each position of the request. \<open>Throws m\<close> is a thrown error whose
  \<^verbatim>\<open>error instanceof Error ? error.message : String(error)\<close> is \<open>m\<close>. The calls that
  are made are logged; the prompt of a call is not modelled beyond what it was built from.
\<close>

datatype content_block = TextBlock string | OtherBlock

datatype gateway_result = Throws string | Message "content_block list"

record gateway =
  analysis_reply :: gateway_result
  generation_reply :: "nat \<Rightarrow> gateway_result"

datatype call = AnalysisCall "jsval list" | GenerationCall string

text \<open>
  The only exceptions that escape a function of the handler are TypeErrors of the engine
  (the message texts are V8's).
\<close>

datatype exn = TypeError string

fun message :: "exn \<Rightarrow> string" where
  "message (TypeError m) = m"

section \<open>analyzeBrandVoice\<close>

definition default_profile :: jsval where
  "default_profile =
     Obj [(js ''tone'', Str (js ''professional'')),
          (js ''style'', Str (js ''clear and concise'')),
          (js ''terminology'', Arr []),
          (js ''structure'', Str (js ''standard''))]"

text \<open>Lines 23 to 30: legacy strings become text examples, then empty examples are dropped.\<close>

definition processedExamples :: "jsval list \<Rightarrow> jsval list" where
  "processedExamples examples =
     filter (\<lambda>ex. truthy ex \<and> truthy (js_or (js_get ex (js ''content'')) (js_get ex (js ''text''))))
       (map (\<lambda>ex. case ex of
                    Str s \<Rightarrow> Obj [(js ''type'', Str (js ''text'')), (js ''content'', Str s)]
                  | _ \<Rightarrow> ex)
          examples)"

text \<open>
  Lines 10 to 164. The message content (lines 32 to 118) is assembled from
  \<open>processedExamples\<close>; nothing there throws out of the function (the image branch has its own
  \<^verbatim>\<open>try\<close>, the text branch tests the type of what it trims), so the call is logged with
  these examples. Inside the \<^verbatim>\<open>try\<close>, a thrown gateway error, a missing first block
  (\<^verbatim>\<open>content.type\<close> of \<^verbatim>\<open>undefined\<close>) and a SyntaxError of \<^verbatim>\<open>JSON.parse\<close> are
  caught, and a block that is not text skips the \<^verbatim>\<open>if\<close>: all four reach the fallback.
\<close>

definition analyzeBrandVoice :: "gateway_result \<Rightarrow> jsval list \<Rightarrow> jsval \<times> call list" where
  "analyzeBrandVoice reply examples =
     (if examples = [] then (default_profile, [])
      else
        (case reply of
           Throws m \<Rightarrow> default_profile
         | Message blocks \<Rightarrow>
             (case blocks of
                [] \<Rightarrow> default_profile
              | TextBlock t # _ \<Rightarrow>
                  (case JSON_parse (extract_json (trim t)) of
                     None \<Rightarrow> default_profile
                   | Some analysis \<Rightarrow> analysis)
              | OtherBlock # _ \<Rightarrow> default_profile),
         [AnalysisCall (processedExamples examples)]))"

section \<open>generateContentForFormat\<close>

record GeneratedContent =
  format :: string
  content :: string
  consistencyScore :: "rat option"

text \<open>
  ToString of a value inside a template literal or \<^verbatim>\<open>Array.prototype.join\<close> throws a
  TypeError for an object with an own property \<^verbatim>\<open>toString\<close> (which, coming from JSON, is
  not callable), also inside arrays, whose \<^verbatim>\<open>null\<close> and \<^verbatim>\<open>undefined\<close> elements
  print as the empty string.
\<close>

fun toString_throws :: "jsval \<Rightarrow> bool" where
  "toString_throws (Obj kvs) = (js ''toString'' \<in> fst ` set kvs)"
| "toString_throws (Arr xs) = (\<exists>x \<in> set xs. toString_throws x)"
| "toString_throws v = False"

text \<open>
  Lines 184 to 193, which stand before the \<^verbatim>\<open>try\<close>: for a truthy \<open>brandVoice\<close> the
  template prints tone, style, \<^verbatim>\<open>brandVoice.terminology.join(", ")\<close> and structure. The
  result is the TypeError thrown, or else the terminology, which is then an array
  (\<open>None\<close> when \<open>brandVoice\<close> is falsy and the template is skipped).
\<close>

definition brandVoiceContext :: "jsval \<Rightarrow> exn + jsval list option" where
  "brandVoiceContext brandVoice =
     (if truthy brandVoice then
        if toString_throws (js_get brandVoice (js ''tone''))
           \<or> toString_throws (js_get brandVoice (js ''style''))
        then Inl (TypeError ''Cannot convert object to primitive value'')
        else
          (case js_get brandVoice (js ''terminology'') of
             Arr terms \<Rightarrow>
               if toString_throws (Arr terms) \<or> toString_throws (js_get brandVoice (js ''structure''))
               then Inl (TypeError ''Cannot convert object to primitive value'')
               else Inr (Some terms)
           | Undefined \<Rightarrow> Inl (TypeError ''Cannot read properties of undefined (reading 'join')'')
           | Null \<Rightarrow> Inl (TypeError ''Cannot read properties of null (reading 'join')'')
           | _ \<Rightarrow> Inl (TypeError ''brandVoice.terminology.join is not a function''))
      else Inr None)"

text \<open>
  Line 240, \<^verbatim>\<open>contentText.includes(term.toLowerCase())\<close>, for a term that is a string:
  the text being Latin-1, it includes the lower case of the term only if that is Latin-1.
\<close>

definition term_included :: "string \<Rightarrow> ustring \<Rightarrow> bool" where
  "term_included contentText t =
     (case lowered_term t of None \<Rightarrow> False | Some l \<Rightarrow> js_includes contentText l)"

text \<open>
  Lines 239 to 241: the number of terms that the lowered text includes. The callback of
  \<^verbatim>\<open>filter\<close> calls \<^verbatim>\<open>term.toLowerCase()\<close>, which throws at the first term that is
  not a string.
\<close>

fun matchingTerms :: "string \<Rightarrow> jsval list \<Rightarrow> exn + nat" where
  "matchingTerms contentText [] = Inr 0"
| "matchingTerms contentText (Str t # terms) =
     (case matchingTerms contentText terms of
        Inl e \<Rightarrow> Inl e
      | Inr n \<Rightarrow> Inr (if term_included contentText t then Suc n else n))"
| "matchingTerms contentText (Null # terms) =
     Inl (TypeError ''Cannot read properties of null (reading 'toLowerCase')'')"
| "matchingTerms contentText (Undefined # terms) =
     Inl (TypeError ''Cannot read properties of undefined (reading 'toLowerCase')'')"
| "matchingTerms contentText (v # terms) = Inl (TypeError ''term.toLowerCase is not a function'')"

text \<open>The result of the \<^verbatim>\<open>catch\<close> block, lines 254 to 266.\<close>

definition caught :: "string \<Rightarrow> string \<Rightarrow> GeneratedContent" where
  "caught fmt errorMessage =
     \<lparr>format = fmt,
      content = ''Error generating '' @ fmt @ '' content: '' @ errorMessage
                @ ''. Please check your API key and try again.'',
      consistencyScore = None\<rparr>"

text \<open>
  Lines 220 to 272: the \<^verbatim>\<open>try\<close> block around the gateway call, its \<^verbatim>\<open>catch\<close> and
  the fallback return. \<open>terminology\<close> is what the template left: \<open>None\<close> for a falsy
  \<open>brandVoice\<close>, else the terminology array. The \<^verbatim>\<open>catch\<close> also receives the TypeError
  of \<^verbatim>\<open>content.type\<close> when the message has no block, and that of the filter callback.
\<close>

definition generated :: "gateway_result \<Rightarrow> string \<Rightarrow> jsval list option \<Rightarrow> GeneratedContent" where
  "generated reply fmt terminology =
     (case reply of
        Throws errorMessage \<Rightarrow> caught fmt errorMessage
      | Message blocks \<Rightarrow>
          (case blocks of
             [] \<Rightarrow> caught fmt ''Cannot read properties of undefined (reading 'type')''
           | TextBlock txt # _ \<Rightarrow>
               (case terminology of
                  Some (t # ts) \<Rightarrow>
                    (case matchingTerms (toLowerCase txt) (t # ts) of
                       Inl e \<Rightarrow> caught fmt (message e)
                     | Inr matching \<Rightarrow>
                         \<lparr>format = fmt, content = txt,
                          consistencyScore =
                            Some (min 95 (70 + (of_nat matching / of_nat (length (t # ts))) * 25))\<rparr>)
                | Some [] \<Rightarrow> \<lparr>format = fmt, content = txt, consistencyScore = Some 75\<rparr>
                | None \<Rightarrow> \<lparr>format = fmt, content = txt, consistencyScore = None\<rparr>)
           | OtherBlock # _ \<Rightarrow>
               \<lparr>format = fmt,
                content = ''Error generating '' @ fmt @ '' content. Please try again.'',
                consistencyScore = None\<rparr>))"

text \<open>
  Lines 167 to 273. The result is a rejection (the TypeError of the template, thrown before
  the gateway is called) or the object returned; the declared result type admits
  \<^verbatim>\<open>null\<close>, which is \<open>None\<close> here. The topic and the industry only enter the prompt.
\<close>

definition generateContentForFormat ::
  "gateway_result \<Rightarrow> string \<Rightarrow> string \<Rightarrow> string \<Rightarrow> jsval
     \<Rightarrow> (exn + GeneratedContent option) \<times> call list" where
  "generateContentForFormat reply tpc ind fmt brandVoice =
     (case brandVoiceContext brandVoice of
        Inl e \<Rightarrow> (Inl e, [])
      | Inr terminology \<Rightarrow> (Inr (Some (generated reply fmt terminology)), [GenerationCall fmt]))"

section \<open>The request handler POST\<close>

text \<open>
  The body has the fields of \<^verbatim>\<open>ContentGenerationRequest\<close> at their declared types, each
  possibly absent; the examples are arbitrary values, as the handler itself inspects their
  run-time type, and so is the supplied profile.
\<close>

record ContentGenerationRequest =
  topic :: "string option"
  industry :: "string option"
  formats :: "string list option"
  brandVoice :: jsval
  brandVoiceExamples :: "jsval list option"

datatype response =
    Success "GeneratedContent list" jsval
  | Failure nat string

text \<open>Lines 287 to 299.\<close>

definition examplesToUse :: "jsval list option \<Rightarrow> jsval list" where
  "examplesToUse examples =
     (case examples of
        None \<Rightarrow> []
      | Some [] \<Rightarrow> []
      | Some (first # rest) \<Rightarrow>
          (case first of
             Str s \<Rightarrow> map (\<lambda>ex. Obj [(js ''type'', Str (js ''text'')), (js ''content'', ex)]) (first # rest)
           | _ \<Rightarrow> first # rest))"

text \<open>
  \<^verbatim>\<open>Promise.all\<close>, as ECMAScript defines it: each promise, when it settles, stores its
  value at its own index, the first rejection rejects the whole, and the array of values is
  delivered when every promise has settled. \<open>order\<close> lists the indices in the order in
  which the promises settle.
\<close>

fun settle :: "(exn + 'a) list \<Rightarrow> nat list \<Rightarrow> 'a option list \<Rightarrow> exn + 'a option list" where
  "settle ps [] vals = Inr vals"
| "settle ps (i # order) vals =
     (case ps ! i of Inl e \<Rightarrow> Inl e | Inr v \<Rightarrow> settle ps order (vals[i := Some v]))"

definition Promise_all :: "(exn + 'a) list \<Rightarrow> nat list \<Rightarrow> exn + 'a list" where
  "Promise_all ps order =
     (case settle ps order (replicate (length ps) None) of
        Inl e \<Rightarrow> Inl e
      | Inr vals \<Rightarrow> Inr (map the vals))"

definition missing_fields :: response where
  "missing_fields =
     Failure 400 ''Missing required fields: topic, industry, and at least one format are required''"

text \<open>
  Lines 326 to 337 with the \<^verbatim>\<open>catch\<close> of lines 338 to 350: one promise per format, made
  in the order of the formats (each runs up to its gateway call when it is made), then
  \<^verbatim>\<open>Promise.all\<close> and the filter that drops \<^verbatim>\<open>null\<close> results.
\<close>

definition generate_all ::
  "gateway \<Rightarrow> nat list \<Rightarrow> string \<Rightarrow> string \<Rightarrow> string list \<Rightarrow> jsval \<Rightarrow> response \<times> call list" where
  "generate_all gw order tpc ind fmts bv =
     (let generationPromises =
            map (\<lambda>(i, fmt). generateContentForFormat (generation_reply gw i) tpc ind fmt bv)
              (enumerate 0 fmts)
      in (case Promise_all (map fst generationPromises) order of
            Inl e \<Rightarrow> Failure 500 (''Internal server error: '' @ message e)
          | Inr results \<Rightarrow> Success (List.map_filter id results) bv,
          concat (map snd generationPromises)))"

text \<open>
  Lines 275 to 351. \<open>api_key\<close> is \<^verbatim>\<open>process.env.ANTHROPIC_API_KEY\<close>, \<open>order\<close> the order
  in which the generation promises settle.
\<close>

definition POST ::
  "string option \<Rightarrow> gateway \<Rightarrow> nat list \<Rightarrow> ContentGenerationRequest \<Rightarrow> response \<times> call list" where
  "POST api_key gw order body =
     (if api_key = None \<or> api_key = Some []
      then (Failure 500 ''ANTHROPIC_API_KEY is not configured. Please set it in your .env.local file.'', [])
      else
        (let examples = examplesToUse (brandVoiceExamples body) in
         if examples \<noteq> [] \<and> (formats body = None \<or> formats body = Some [])
         then (case analyzeBrandVoice (analysis_reply gw) examples of
                 (bv, calls) \<Rightarrow> (Success [] bv, calls))
         else
           (case (topic body, industry body, formats body) of
              (Some tpc, Some ind, Some fmts) \<Rightarrow>
                if tpc = [] \<or> ind = [] \<or> fmts = [] then (missing_fields, [])
                else
                  (case (if examples \<noteq> [] then analyzeBrandVoice (analysis_reply gw) examples
                         else if truthy (brandVoice body) then (brandVoice body, [])
                         else (Undefined, [])) of
                     (bv, calls) \<Rightarrow>
                       (case generate_all gw order tpc ind fmts bv of
                          (resp, calls') \<Rightarrow> (resp, calls @ calls')))
            | _ \<Rightarrow> (missing_fields, []))))"

section \<open>Notions of the specification\<close>

text \<open>
  A value of the interface \<^verbatim>\<open>BrandVoiceAnalysis\<close>: four fields, the terminology a list
  of strings.
\<close>

definition BrandVoiceAnalysis :: "ustring \<Rightarrow> ustring \<Rightarrow> ustring list \<Rightarrow> ustring \<Rightarrow> jsval" where
  "BrandVoiceAnalysis tn st terms str =
     Obj [(js ''tone'', Str tn), (js ''style'', Str st), (js ''terminology'', Arr (map Str terms)),
          (js ''structure'', Str str)]"

text \<open>
  The specification's measure, in its own words: a term appears case-insensitively as a
  substring of the text when some part of the text, as long as the term, equals the term up
  to case, that is, code unit by code unit the two have the same lower case;
  \<open>matchedTermFraction\<close> is the fraction of the terms that do.
\<close>

definition same_letter :: "nat \<Rightarrow> char \<Rightarrow> bool" where
  "same_letter u c = (lower_latin1 u = Some (lower_char c))"

definition occurs_ci :: "ustring \<Rightarrow> string \<Rightarrow> bool" where
  "occurs_ci t txt =
     list_ex (\<lambda>i. list_all2 same_letter t (take (length t) (drop i txt))) [0..<Suc (length txt)]"

definition matchedTermFraction :: "ustring list \<Rightarrow> string \<Rightarrow> rat" where
  "matchedTermFraction terms txt =
     of_nat (length (filter (\<lambda>t. occurs_ci t txt) terms)) / of_nat (length terms)"



section \<open>Properties\<close>

subsection \<open>The consistency score\<close>

lemma sublist_of_map_iff:
  "sublist l (map f txt) \<longleftrightarrow> (\<exists>i \<le> length txt. map f (take (length l) (drop i txt)) = l)"
proof
  assume "sublist l (map f txt)"
  then obtain ps ss where eq: "map f txt = ps @ l @ ss"
    by (auto simp: sublist_def)
  have len: "length ps \<le> length txt"
    using arg_cong [OF eq, of length] by simp
  have "map f (take (length l) (drop (length ps) txt)) = take (length l) (drop (length ps) (map f txt))"
    by (simp add: take_map drop_map)
  also have "\<dots> = l"
    by (simp add: eq)
  finally show "\<exists>i \<le> length txt. map f (take (length l) (drop i txt)) = l"
    using len by blast
next
  assume "\<exists>i \<le> length txt. map f (take (length l) (drop i txt)) = l"
  then obtain i where i: "map f (take (length l) (drop i txt)) = l"
    by blast
  have "txt = take i txt @ take (length l) (drop i txt) @ drop (length l) (drop i txt)"
    by (simp only: append_take_drop_id)
  then have "map f txt = map f (take i txt) @ l @ map f (drop (length l) (drop i txt))"
    using i by (metis map_append)
  then show "sublist l (map f txt)"
    unfolding sublist_def by blast
qed

lemma those_map_Some: "those (map Some ys) = Some ys"
  by (induction ys) simp_all

lemma those_eq_Some: "those xs = Some ys \<longleftrightarrow> xs = map Some ys"
proof
  show "those xs = Some ys \<Longrightarrow> xs = map Some ys"
  proof (induction xs arbitrary: ys)
    case Nil
    then show ?case by simp
  next
    case (Cons x xs)
    then show ?case
      by (cases x) (auto split: option.splits)
  qed
qed (simp add: those_map_Some)

lemma same_letters_iff:
  "list_all2 same_letter t w \<longleftrightarrow> map lower_latin1 t = map Some (map lower_char w)"
  by (auto simp: list_all2_conv_all_nth list_eq_iff_nth_eq same_letter_def)

lemma term_included_occurs:
  "term_included (toLowerCase txt) t = occurs_ci t txt"
proof -
  have occ: "occurs_ci t txt
      \<longleftrightarrow> (\<exists>i \<le> length txt. list_all2 same_letter t (take (length t) (drop i txt)))"
    by (auto simp: occurs_ci_def list_ex_iff less_Suc_eq_le simp del: upt_Suc)
  show ?thesis
  proof (cases "lowered_term t")
    case None
    have "\<not> list_all2 same_letter t w" for w
      using None those_map_Some [of "map lower_char w"]
      by (auto simp: same_letters_iff lowered_term_def)
    with None show ?thesis
      by (simp add: term_included_def occ)
  next
    case (Some l)
    then have l: "map lower_latin1 t = map Some l"
      by (simp add: lowered_term_def those_eq_Some)
    have len: "length l = length t"
      using map_eq_imp_length_eq [OF l] by simp
    have eq: "(map Some l = map Some (map lower_char w)) = (map lower_char w = l)" for w
      by (auto simp: inj_map_eq_map simp del: map_map)
    have "sublist l (map lower_char txt)
        \<longleftrightarrow> (\<exists>i \<le> length txt. map lower_char (take (length t) (drop i txt)) = l)"
      using sublist_of_map_iff [of l lower_char "txt"] len by simp
    also have "\<dots> \<longleftrightarrow> (\<exists>i \<le> length txt. list_all2 same_letter t (take (length t) (drop i txt)))"
      unfolding same_letters_iff l eq ..
    finally have "sublist l (map lower_char txt)
        \<longleftrightarrow> (\<exists>i \<le> length txt. list_all2 same_letter t (take (length t) (drop i txt)))" .
    with Some show ?thesis
      by (simp add: term_included_def occ js_includes_def toLowerCase_def)
  qed
qed

lemma js_eq_iff [simp]: "js a = js b \<longleftrightarrow> a = b"
  by (simp add: js_def inj_map_eq_map inj_of_char)

lemma matchingTerms_strings:
  "matchingTerms c (map Str terms) = Inr (length (filter (term_included c) terms))"
  by (induction terms) simp_all

lemma toString_throws_strings: "\<not> toString_throws (Arr (map Str terms))"
  by (induction terms) simp_all

lemma brandVoiceContext_typed:
  "brandVoiceContext (BrandVoiceAnalysis tn st terms str) = Inr (Some (map Str terms))"
  using toString_throws_strings [of terms]
  by (simp add: brandVoiceContext_def BrandVoiceAnalysis_def del: toString_throws.simps(2))




lemma matchingTerms_le: "matchingTerms c ts = Inr n \<Longrightarrow> n \<le> length ts"
proof (induction c ts arbitrary: n rule: matchingTerms.induct)
  case (2 contentText t terms)
  then show ?case
    by (auto split: sum.splits if_splits)
qed simp_all

lemma score_range:
  assumes "n \<le> len" and "0 < len"
  shows "70 \<le> min 95 (70 + (of_nat n / of_nat len) * (25::rat))"
    and "min 95 (70 + (of_nat n / of_nat len) * (25::rat)) \<le> 95"
proof -
  have "(0::rat) \<le> of_nat n / of_nat len"
    by simp
  then show "70 \<le> min 95 (70 + (of_nat n / of_nat len) * (25::rat))"
    by simp
  show "min 95 (70 + (of_nat n / of_nat len) * (25::rat)) \<le> 95"
    by simp
qed

lemma generated_score_bounds:
  "consistencyScore (generated reply fmt terminology) = Some s \<Longrightarrow> 70 \<le> s \<and> s \<le> 95"
  unfolding generated_def caught_def
  by (auto split: gateway_result.splits list.splits content_block.splits option.splits sum.splits
      dest!: matchingTerms_le intro: score_range)

text \<open>
  Claim C10. Whenever \<open>generateContentForFormat\<close> returns a content with a score, the score
  lies between 70 and 95, whatever the profile and the reply are.
\<close>

theorem consistencyScore_bounds:
  "generateContentForFormat reply tpc ind fmt bv = (Inr (Some g), calls)
     \<Longrightarrow> consistencyScore g = Some s \<Longrightarrow> 70 \<le> s \<and> s \<le> 95"
  unfolding generateContentForFormat_def
  by (auto split: sum.splits dest: generated_score_bounds)

theorem consistencyScore_bounds_witness:
  "generateContentForFormat (Message [TextBlock ''Our Platform ships fast'']) ''AI'' ''SaaS''
       ''twitter'' (Obj [(js ''terminology'', Arr [Str (js ''platform''), Str (js ''synergy''), Str (js ''fast'')])])
     = (Inr (Some \<lparr>format = ''twitter'', content = ''Our Platform ships fast'',
                   consistencyScore = Some (260 / 3)\<rparr>),
        [GenerationCall ''twitter''])
   \<and> (70::rat) \<le> 260 / 3 \<and> (260 / 3 :: rat) \<le> 95"
proof -
  have run: "generateContentForFormat (Message [TextBlock ''Our Platform ships fast'']) ''AI'' ''SaaS''
       ''twitter'' (Obj [(js ''terminology'', Arr [Str (js ''platform''), Str (js ''synergy''), Str (js ''fast'')])])
     = (Inr (Some \<lparr>format = ''twitter'', content = ''Our Platform ships fast'',
                   consistencyScore = Some (260 / 3)\<rparr>),
        [GenerationCall ''twitter''])"
    by code_simp
  have "consistencyScore \<lparr>format = ''twitter'', content = ''Our Platform ships fast'',
                   consistencyScore = Some (260 / 3)\<rparr> = Some (260 / 3)"
    by simp
  from consistencyScore_bounds [OF run this] run show ?thesis
    by blast
qed

subsection \<open>The orchestrator\<close>

text \<open>
  Claim C9. A non-empty list of examples is taken for the legacy shape exactly when its
  first element is a string, and then every element, string or not, is wrapped as a text
  example; otherwise the list is used as it is.
\<close>

theorem legacy_shape_by_first_element:
  "examplesToUse (Some (x # xs))
     = (if (\<exists>s. x = Str s)
        then map (\<lambda>ex. Obj [(js ''type'', Str (js ''text'')), (js ''content'', ex)]) (x # xs)
        else x # xs)"
  by (cases x) (simp_all add: examplesToUse_def)

theorem legacy_shape_by_first_element_witness:
  "examplesToUse (Some [Str (js ''We ship fast.''), Num 7, Obj [(js ''type'', Str (js ''image'')), (js ''content'', Str (js ''iVBOR''))]])
     = [Obj [(js ''type'', Str (js ''text'')), (js ''content'', Str (js ''We ship fast.''))],
        Obj [(js ''type'', Str (js ''text'')), (js ''content'', Num 7)],
        Obj [(js ''type'', Str (js ''text'')),
             (js ''content'', Obj [(js ''type'', Str (js ''image'')), (js ''content'', Str (js ''iVBOR''))])]]
   \<and> examplesToUse (Some [Obj [(js ''type'', Str (js ''image'')), (js ''content'', Str (js ''iVBOR''))], Str (js ''We ship fast.'')])
     = [Obj [(js ''type'', Str (js ''image'')), (js ''content'', Str (js ''iVBOR''))], Str (js ''We ship fast.'')]"
  using legacy_shape_by_first_element [of "Str (js ''We ship fast.'')"
          "[Num 7, Obj [(js ''type'', Str (js ''image'')), (js ''content'', Str (js ''iVBOR''))]]"]
        legacy_shape_by_first_element [of "Obj [(js ''type'', Str (js ''image'')), (js ''content'', Str (js ''iVBOR''))]"
          "[Str (js ''We ship fast.'')]"]
  by simp

lemma examplesToUse_nonempty: "examplesToUse (Some (x # xs)) \<noteq> []"
  by (cases x) (simp_all add: examplesToUse_def)

text \<open>
  Claim C7. With the credential configured, a request that brings examples and whose formats
  are empty or absent is answered with no contents and the analysis of the examples, whatever
  its topic and industry are; the one gateway call is the analysis.
\<close>

theorem analyze_only_branch:
  assumes "api_key = Some k" and "k \<noteq> []"
    and "brandVoiceExamples body = Some (x # xs)"
    and "formats body = None \<or> formats body = Some []"
  shows "POST api_key gw order body
           = (Success [] (fst (analyzeBrandVoice (analysis_reply gw) (examplesToUse (Some (x # xs))))),
              [AnalysisCall (processedExamples (examplesToUse (Some (x # xs))))])"
proof -
  have ne: "examplesToUse (Some (x # xs)) \<noteq> []"
    by (rule examplesToUse_nonempty)
  then have "analyzeBrandVoice (analysis_reply gw) (examplesToUse (Some (x # xs)))
      = (fst (analyzeBrandVoice (analysis_reply gw) (examplesToUse (Some (x # xs)))),
         [AnalysisCall (processedExamples (examplesToUse (Some (x # xs))))])"
    by (simp add: analyzeBrandVoice_def)
  then show ?thesis
    using assms ne by (auto simp: POST_def Let_def split: prod.splits)
qed

theorem analyze_only_branch_witness:
  \<open>POST (Some ''sk-ant-1'')
      \<lparr>analysis_reply = Message [TextBlock ''Here it is: {"tone":"direct","style":"short","terminology":["ship"],"structure":"lists"}''],
       generation_reply = (\<lambda>i. Throws ''unused'')\<rparr>
      []
      \<lparr>topic = None, industry = None, formats = Some [], brandVoice = Undefined,
       brandVoiceExamples = Some [Str (js ''We ship fast.''), Str (js ''No fluff, ever.'')]\<rparr>
    = (Success []
         (Obj [(js ''tone'', Str (js ''direct'')), (js ''style'', Str (js ''short'')),
               (js ''terminology'', Arr [Str (js ''ship'')]), (js ''structure'', Str (js ''lists''))]),
       [AnalysisCall [Obj [(js ''type'', Str (js ''text'')), (js ''content'', Str (js ''We ship fast.''))],
                      Obj [(js ''type'', Str (js ''text'')), (js ''content'', Str (js ''No fluff, ever.''))]]])\<close>
proof -
  let ?gw = \<open>\<lparr>analysis_reply = Message [TextBlock ''Here it is: {"tone":"direct","style":"short","terminology":["ship"],"structure":"lists"}''],
       generation_reply = (\<lambda>i. Throws ''unused'')\<rparr>\<close>
  let ?body = "\<lparr>topic = None, industry = None, formats = Some [], brandVoice = Undefined,
       brandVoiceExamples = Some [Str (js ''We ship fast.''), Str (js ''No fluff, ever.'')]\<rparr>"
  have k: "Some ''sk-ant-1'' = Some ''sk-ant-1''" "''sk-ant-1'' \<noteq> []"
    by simp_all
  have e: "brandVoiceExamples ?body = Some (Str (js ''We ship fast.'') # [Str (js ''No fluff, ever.'')])"
    by simp
  have f: "formats ?body = None \<or> formats ?body = Some []"
    by simp
  have a: \<open>fst (analyzeBrandVoice (Message [TextBlock ''Here it is: {"tone":"direct","style":"short","terminology":["ship"],"structure":"lists"}''])
              (examplesToUse (Some [Str (js ''We ship fast.''), Str (js ''No fluff, ever.'')])))
            = Obj [(js ''tone'', Str (js ''direct'')), (js ''style'', Str (js ''short'')),
               (js ''terminology'', Arr [Str (js ''ship'')]), (js ''structure'', Str (js ''lists''))]\<close>
    by code_simp
  have p: "processedExamples (examplesToUse (Some [Str (js ''We ship fast.''), Str (js ''No fluff, ever.'')]))
            = [Obj [(js ''type'', Str (js ''text'')), (js ''content'', Str (js ''We ship fast.''))],
               Obj [(js ''type'', Str (js ''text'')), (js ''content'', Str (js ''No fluff, ever.''))]]"
    by code_simp
  show ?thesis
    using analyze_only_branch [OF k e f, of ?gw "[]"] by (simp add: a p)
qed

text \<open>
  Claim C8. With the credential configured, a request that does not take the analyze-only
  branch and lacks a topic, an industry or a format is answered with status 400, and no
  gateway call is made.
\<close>

theorem validation_error_without_gateway_call:
  assumes "api_key = Some k" and "k \<noteq> []"
    and "\<not> (examplesToUse (brandVoiceExamples body) \<noteq> []
            \<and> (formats body = None \<or> formats body = Some []))"
    and "topic body = None \<or> topic body = Some [] \<or> industry body = None \<or> industry body = Some []
           \<or> formats body = None \<or> formats body = Some []"
  shows "POST api_key gw order body
           = (Failure 400 ''Missing required fields: topic, industry, and at least one format are required'',
              [])"
  using assms
  by (auto simp: POST_def Let_def missing_fields_def split: option.splits)

theorem validation_error_without_gateway_call_witness:
  "POST (Some ''sk-ant-1'')
      \<lparr>analysis_reply = Throws ''unused'', generation_reply = (\<lambda>i. Throws ''unused'')\<rparr> [0]
      \<lparr>topic = Some [], industry = Some ''SaaS'', formats = Some [''blog''], brandVoice = Undefined,
       brandVoiceExamples = None\<rparr>
    = (Failure 400 ''Missing required fields: topic, industry, and at least one format are required'',
       [])"
proof -
  let ?body = "\<lparr>topic = Some [], industry = Some ''SaaS'', formats = Some [''blog''],
       brandVoice = Undefined, brandVoiceExamples = None\<rparr>"
  have k: "Some ''sk-ant-1'' = Some ''sk-ant-1''" "''sk-ant-1'' \<noteq> []"
    by simp_all
  have n: "\<not> (examplesToUse (brandVoiceExamples ?body) \<noteq> []
            \<and> (formats ?body = None \<or> formats ?body = Some []))"
    by (simp add: examplesToUse_def)
  have m: "topic ?body = None \<or> topic ?body = Some [] \<or> industry ?body = None \<or> industry ?body = Some []
           \<or> formats ?body = None \<or> formats ?body = Some []"
    by simp
  show ?thesis
    using validation_error_without_gateway_call [OF k n m] by simp
qed

subsection \<open>The fan-out over the formats\<close>

lemma settle_all_fulfilled:
  "\<forall>i \<in> set order. i < length vs
     \<Longrightarrow> settle (map Inr vs) order vals = Inr (fold (\<lambda>i a. a[i := Some (vs ! i)]) order vals)"
  by (induction order arbitrary: vals) simp_all

lemma fold_update_nth:
  "j < length vals
     \<Longrightarrow> fold (\<lambda>i a. a[i := f i]) order vals ! j = (if j \<in> set order then f j else vals ! j)"
  by (induction order arbitrary: vals) (auto simp: nth_list_update)

lemma fold_update_length: "length (fold (\<lambda>i a. a[i := f i]) order vals) = length vals"
  by (induction order arbitrary: vals) simp_all

lemma Promise_all_fulfilled:
  assumes "set order = {..<length vs}"
  shows "Promise_all (map Inr vs) order = Inr vs"
proof -
  have "fold (\<lambda>i a. a[i := Some (vs ! i)]) order (replicate (length vs) None) = map Some vs"
    using assms by (intro nth_equalityI) (simp_all add: fold_update_length fold_update_nth)
  moreover have "\<forall>i \<in> set order. i < length vs"
    using assms by simp
  ultimately show ?thesis
    by (simp add: Promise_all_def settle_all_fulfilled comp_def)
qed

lemma settle_all_rejected:
  "order \<noteq> [] \<Longrightarrow> \<forall>i \<in> set order. i < n \<Longrightarrow> settle (replicate n (Inl e)) order vals = Inl e"
  by (cases order) simp_all

lemma Promise_all_rejected:
  assumes "set order = {..<n}" and "0 < n"
  shows "Promise_all (replicate n (Inl e)) order = Inl e"
proof -
  have "0 \<in> set order"
    using assms by simp
  then have ne: "order \<noteq> []"
    by (cases order) simp_all
  have lt: "\<forall>i \<in> set order. i < n"
    using assms(1) by simp
  show ?thesis
    by (simp add: Promise_all_def settle_all_rejected [OF ne lt])
qed

lemma map_snd_enumerate': "map (\<lambda>p. f (snd p)) (enumerate n xs) = map f xs"
  by (induction xs arbitrary: n) simp_all

lemma concat_singletons: "concat (map (\<lambda>x. [f x]) xs) = map f xs"
  by (induction xs) simp_all

lemma map_filter_id_Some: "List.map_filter id (map Some xs) = xs"
  by (induction xs) (simp_all add: List.map_filter_simps)

lemma generate_all_fulfilled:
  assumes "brandVoiceContext bv = Inr terminology" and "set order = {..<length fmts}"
  shows "generate_all gw order tpc ind fmts bv
           = (Success (map (\<lambda>(i, fmt). generated (generation_reply gw i) fmt terminology)
                         (enumerate 0 fmts)) bv,
              map GenerationCall fmts)"
proof -
  let ?g = "\<lambda>p. generated (generation_reply gw (fst p)) (snd p) terminology"
  have fn: "(\<lambda>(i, fmt). generateContentForFormat (generation_reply gw i) tpc ind fmt bv)
              = (\<lambda>p. (Inr (Some (?g p)), [GenerationCall (snd p)]))"
    using assms(1) by (simp add: fun_eq_iff generateContentForFormat_def)
  have "set order = {..<length (map (\<lambda>p. Some (?g p)) (enumerate 0 fmts))}"
    using assms(2) by simp
  then have "Promise_all (map Inr (map (\<lambda>p. Some (?g p)) (enumerate 0 fmts))) order
               = Inr (map (\<lambda>p. Some (?g p)) (enumerate 0 fmts))"
    by (rule Promise_all_fulfilled)
  then have all: "Promise_all (map (\<lambda>p. Inr (Some (?g p))) (enumerate 0 fmts)) order
               = Inr (map (\<lambda>p. Some (?g p)) (enumerate 0 fmts))"
    by (simp add: comp_def)
  have keep: "List.map_filter id (map (\<lambda>p. Some (?g p)) (enumerate 0 fmts)) = map ?g (enumerate 0 fmts)"
    using map_filter_id_Some [of "map ?g (enumerate 0 fmts)"] by (simp add: comp_def)
  have calls: "map (\<lambda>p. GenerationCall (snd p)) (enumerate 0 fmts) = map GenerationCall fmts"
    by (rule map_snd_enumerate')
  have g: "(\<lambda>(i, fmt). generated (generation_reply gw i) fmt terminology) = ?g"
    by (simp add: fun_eq_iff)
  show ?thesis
    unfolding generate_all_def Let_def fn g
    by (simp add: comp_def all keep calls)
qed

lemma generate_all_rejected:
  assumes "brandVoiceContext bv = Inl e" and "set order = {..<length fmts}" and "fmts \<noteq> []"
  shows "generate_all gw order tpc ind fmts bv
           = (Failure 500 (''Internal server error: '' @ message e), [])"
proof -
  have fn: "(\<lambda>(i, fmt). generateContentForFormat (generation_reply gw i) tpc ind fmt bv)
              = (\<lambda>p. (Inl e, []))"
    using assms(1) by (simp add: fun_eq_iff generateContentForFormat_def)
  have all: "Promise_all (replicate (length fmts) (Inl e)) order = Inl e"
    using assms(2,3) by (intro Promise_all_rejected) simp_all
  show ?thesis
    unfolding generate_all_def Let_def fn
    by (simp add: comp_def map_replicate_const all)
qed

lemma format_generated: "format (generated reply fmt terminology) = fmt"
  unfolding generated_def caught_def
  by (simp split: gateway_result.splits list.splits content_block.splits option.splits sum.splits)

lemma generate_all_order:
  assumes "set order = {..<length fmts}" and "fmts \<noteq> []"
    and "generate_all gw order tpc ind fmts bv = (Success contents bv', calls)"
  shows "map format contents = fmts"
proof (cases "brandVoiceContext bv")
  case (Inl e)
  from generate_all_rejected [OF this assms(1,2)] assms(3) show ?thesis
    by simp
next
  case (Inr terminology)
  from generate_all_fulfilled [OF this assms(1)] assms(3)
  have "contents = map (\<lambda>(i, fmt). generated (generation_reply gw i) fmt terminology) (enumerate 0 fmts)"
    by simp
  then have "map format contents = map snd (enumerate 0 fmts)"
    by (simp add: comp_def case_prod_unfold format_generated)
  then show ?thesis
    by simp
qed

lemma POST_generate_mode:
  assumes "api_key = Some k" and "k \<noteq> []"
    and "topic body = Some tpc" and "tpc \<noteq> []"
    and "industry body = Some ind" and "ind \<noteq> []"
    and "formats body = Some fmts" and "fmts \<noteq> []"
  shows "POST api_key gw order body
           = (case (if examplesToUse (brandVoiceExamples body) \<noteq> []
                    then analyzeBrandVoice (analysis_reply gw) (examplesToUse (brandVoiceExamples body))
                    else if truthy (brandVoice body) then (brandVoice body, [])
                    else (Undefined, [])) of
                (bv, calls) \<Rightarrow>
                  (case generate_all gw order tpc ind fmts bv of
                     (resp, calls') \<Rightarrow> (resp, calls @ calls')))"
  using assms by (simp add: POST_def Let_def)

lemma POST_not_generate_mode:
  assumes "formats body = Some fmts" and "fmts \<noteq> []"
    and "api_key = None \<or> api_key = Some [] \<or> topic body = None \<or> topic body = Some []
           \<or> industry body = None \<or> industry body = Some []"
  shows "\<exists>st msg. POST api_key gw order body = (Failure st msg, [])"
proof (cases "api_key = None \<or> api_key = Some []")
  case True
  then show ?thesis
    by (simp add: POST_def)
next
  case False
  with assms show ?thesis
    by (cases "topic body"; cases "industry body") (auto simp: POST_def Let_def missing_fields_def)
qed

text \<open>
  Claim C4. In a response with contents to a request with formats, the formats of the
  contents are the requested formats in the requested order, in whichever order the
  generation promises settle. The second theorem settles the blog before the email.
\<close>

theorem contents_follow_formats_order:
  assumes "set order = {..<length fmts}"
    and "formats body = Some fmts" and "fmts \<noteq> []"
    and "POST api_key gw order body = (Success contents bv, calls)"
  shows "map format contents = fmts"
proof (cases "api_key = None \<or> api_key = Some [] \<or> topic body = None \<or> topic body = Some []
           \<or> industry body = None \<or> industry body = Some []")
  case True
  from POST_not_generate_mode [OF assms(2,3) True, of gw order] assms(4) show ?thesis
    by auto
next
  case False
  then obtain k tpc ind where ok: "api_key = Some k" "k \<noteq> []" "topic body = Some tpc" "tpc \<noteq> []"
      "industry body = Some ind" "ind \<noteq> []"
    by auto
  obtain bv0 calls0 where r: "(if examplesToUse (brandVoiceExamples body) \<noteq> []
                    then analyzeBrandVoice (analysis_reply gw) (examplesToUse (brandVoiceExamples body))
                    else if truthy (brandVoice body) then (brandVoice body, [])
                    else (Undefined, [])) = (bv0, calls0)"
    by (cases "(if examplesToUse (brandVoiceExamples body) \<noteq> []
                    then analyzeBrandVoice (analysis_reply gw) (examplesToUse (brandVoiceExamples body))
                    else if truthy (brandVoice body) then (brandVoice body, [])
                    else (Undefined, []))") blast
  obtain resp calls1 where g: "generate_all gw order tpc ind fmts bv0 = (resp, calls1)"
    by (cases "generate_all gw order tpc ind fmts bv0") blast
  from POST_generate_mode [OF ok assms(2,3), of gw order] assms(4) r g
  have "resp = Success contents bv"
    by simp
  with g generate_all_order [OF assms(1,3), of gw tpc ind bv0 contents bv calls1] show ?thesis
    by simp
qed

theorem contents_follow_formats_order_witness:
  "POST (Some ''sk-ant-1'')
      \<lparr>analysis_reply = Throws ''unused'',
       generation_reply = (\<lambda>i. if i = 0 then Message [TextBlock ''Subject: hello'']
                                 else Message [TextBlock ''Ten ideas''])\<rparr>
      [1, 0]
      \<lparr>topic = Some ''AI'', industry = Some ''SaaS'', formats = Some [''email'', ''blog''],
       brandVoice = Undefined, brandVoiceExamples = None\<rparr>
    = (Success [\<lparr>format = ''email'', content = ''Subject: hello'', consistencyScore = None\<rparr>,
                \<lparr>format = ''blog'', content = ''Ten ideas'', consistencyScore = None\<rparr>] Undefined,
       [GenerationCall ''email'', GenerationCall ''blog''])
   \<and> map format [\<lparr>format = ''email'', content = ''Subject: hello'', consistencyScore = None\<rparr>,
                  \<lparr>format = ''blog'', content = ''Ten ideas'', consistencyScore = None\<rparr>]
     = [''email'', ''blog'']"
proof -
  let ?gw = "\<lparr>analysis_reply = Throws ''unused'',
       generation_reply = (\<lambda>i. if i = 0 then Message [TextBlock ''Subject: hello'']
                                 else Message [TextBlock ''Ten ideas''])\<rparr>"
  let ?body = "\<lparr>topic = Some ''AI'', industry = Some ''SaaS'', formats = Some [''email'', ''blog''],
       brandVoice = Undefined, brandVoiceExamples = None\<rparr>"
  have run: "POST (Some ''sk-ant-1'') ?gw [1, 0] ?body
    = (Success [\<lparr>format = ''email'', content = ''Subject: hello'', consistencyScore = None\<rparr>,
                \<lparr>format = ''blog'', content = ''Ten ideas'', consistencyScore = None\<rparr>] Undefined,
       [GenerationCall ''email'', GenerationCall ''blog''])"
    by code_simp
  have o: "set [1, 0] = {..<length [''email'', ''blog'']}"
    by auto
  have f: "formats ?body = Some [''email'', ''blog'']" "[''email'', ''blog''] \<noteq> []"
    by simp_all
  from contents_follow_formats_order [OF o f run] run show ?thesis
    by blast
qed

lemma generated_text_typed:
  "generated (Message (TextBlock txt # bs)) fmt (Some (map Str terms))
     = \<lparr>format = fmt, content = txt,
        consistencyScore =
          Some (if terms = [] then 75 else min 95 (70 + 25 * matchedTermFraction terms txt))\<rparr>"
proof (cases terms)
  case Nil
  then show ?thesis
    by (simp add: generated_def)
next
  case (Cons t ts)
  have "term_included (toLowerCase txt) = (\<lambda>t. occurs_ci t txt)"
    by (simp add: fun_eq_iff term_included_occurs)
  then have "matchingTerms (toLowerCase txt) (Str t # map Str ts)
          = Inr (length (filter (\<lambda>t. occurs_ci t txt) terms))"
    using matchingTerms_strings [of "toLowerCase txt" terms] Cons
    by simp
  then show ?thesis
    using Cons by (simp add: generated_def matchedTermFraction_def mult.commute)
qed

lemma generated_text_no_profile:
  "generated (Message (TextBlock txt # bs)) fmt None
     = \<lparr>format = fmt, content = txt, consistencyScore = None\<rparr>"
  by (simp add: generated_def)

lemma generated_throws: "generated (Throws reason) fmt terminology = caught fmt reason"
  by (simp add: generated_def)

lemma brandVoiceContext_Undefined: "brandVoiceContext Undefined = Inr None"
  by (simp add: brandVoiceContext_def)

lemma BrandVoiceAnalysis_not_Undefined: "BrandVoiceAnalysis tn st terms str \<noteq> Undefined"
  by (simp add: BrandVoiceAnalysis_def)

lemma truthy_BrandVoiceAnalysis: "truthy (BrandVoiceAnalysis tn st terms str)"
  by (simp add: BrandVoiceAnalysis_def)

lemma nth_map_enumerate:
  "i < length xs \<Longrightarrow> map (\<lambda>(j, x). f j x) (enumerate 0 xs) ! i = f i (xs ! i)"
  by (simp add: nth_enumerate_eq)

text \<open>
  With a profile that is absent or a \<open>BrandVoiceAnalysis\<close>, a failure of the gateway for one
  format leaves the entries of the other formats as they are without it.
\<close>

lemma single_failure_contained_for_typed_profile:
  assumes "api_key = Some secret" and "secret \<noteq> []"
    and "topic body = Some tpc" and "tpc \<noteq> []"
    and "industry body = Some ind" and "ind \<noteq> []"
    and "formats body = Some fmts"
    and "set order = {..<length fmts}"
    and "(examplesToUse (brandVoiceExamples body) = [] \<and> brandVoice body = bv)
         \<or> (examplesToUse (brandVoiceExamples body) \<noteq> []
            \<and> fst (analyzeBrandVoice (analysis_reply gw) (examplesToUse (brandVoiceExamples body))) = bv)"
    and "bv = Undefined \<or> bv = BrandVoiceAnalysis tn st terms str"
    and "k < length fmts" and "generation_reply gw k = Throws reason"
    and "\<forall>j < length fmts. j \<noteq> k \<longrightarrow> (\<exists>bs. generation_reply gw j = Message (TextBlock (txt j) # bs))"
  shows "\<exists>contents calls.
           POST api_key gw order body = (Success contents bv, calls)
         \<and> length contents = length fmts
         \<and> contents ! k
             = \<lparr>format = fmts ! k,
                content = ''Error generating '' @ fmts ! k @ '' content: '' @ reason
                          @ ''. Please check your API key and try again.'',
                consistencyScore = None\<rparr>
         \<and> (\<forall>j < length fmts. j \<noteq> k \<longrightarrow>
               contents ! j
                 = \<lparr>format = fmts ! j, content = txt j,
                    consistencyScore =
                      (if bv = Undefined then None
                       else Some (if terms = [] then 75
                                  else min 95 (70 + 25 * matchedTermFraction terms (txt j))))\<rparr>)"
proof -
  let ?ex = "examplesToUse (brandVoiceExamples body)"
  define terminology where
    "terminology = (if bv = Undefined then None else Some (map Str terms))"
  have ctx: "brandVoiceContext bv = Inr terminology"
    using assms(10)
    by (auto simp: terminology_def brandVoiceContext_Undefined brandVoiceContext_typed
        BrandVoiceAnalysis_not_Undefined)
  have ne: "fmts \<noteq> []"
    using assms(11) by auto
  obtain calls0 where resolved:
    "(if ?ex \<noteq> [] then analyzeBrandVoice (analysis_reply gw) ?ex
      else if truthy (brandVoice body) then (brandVoice body, [])
      else (Undefined, [])) = (bv, calls0)"
  proof (cases "?ex = []")
    case True
    with assms(9) have "brandVoice body = bv"
      by simp
    with True assms(10) have
      "(if ?ex \<noteq> [] then analyzeBrandVoice (analysis_reply gw) ?ex
        else if truthy (brandVoice body) then (brandVoice body, [])
        else (Undefined, [])) = (bv, [])"
      by (auto simp: truthy_BrandVoiceAnalysis)
    then show ?thesis
      by (rule that)
  next
    case False
    with assms(9) have "fst (analyzeBrandVoice (analysis_reply gw) ?ex) = bv"
      by simp
    with False have
      "(if ?ex \<noteq> [] then analyzeBrandVoice (analysis_reply gw) ?ex
        else if truthy (brandVoice body) then (brandVoice body, [])
        else (Undefined, [])) = (bv, snd (analyzeBrandVoice (analysis_reply gw) ?ex))"
      by (simp add: prod_eq_iff)
    then show ?thesis
      by (rule that)
  qed
  let ?contents = "map (\<lambda>(i, fmt). generated (generation_reply gw i) fmt terminology) (enumerate 0 fmts)"
  have post: "POST api_key gw order body = (Success ?contents bv, calls0 @ map GenerationCall fmts)"
    using POST_generate_mode [OF assms(1-7) ne, of gw order]
    by (simp add: resolved generate_all_fulfilled [OF ctx assms(8)])
  have at: "?contents ! j = generated (generation_reply gw j) (fmts ! j) terminology"
    if "j < length fmts" for j
    using that by (rule nth_map_enumerate)
  have failed: "?contents ! k = caught (fmts ! k) reason"
    using at [OF assms(11)] assms(12) by (simp add: generated_throws)
  have others: "?contents ! j
                 = \<lparr>format = fmts ! j, content = txt j,
                    consistencyScore =
                      (if bv = Undefined then None
                       else Some (if terms = [] then 75
                                  else min 95 (70 + 25 * matchedTermFraction terms (txt j))))\<rparr>"
    if "j < length fmts" and "j \<noteq> k" for j
  proof -
    from assms(13) that obtain bs where "generation_reply gw j = Message (TextBlock (txt j) # bs)"
      by blast
    then show ?thesis
      using at [OF that(1)]
      by (simp add: terminology_def generated_text_typed generated_text_no_profile)
  qed
  show ?thesis
    using post failed others by (intro exI [of _ ?contents] exI [of _ "calls0 @ map GenerationCall fmts"])
      (simp add: caught_def)
qed

lemma single_failure_contained_example:
  "\<exists>contents calls.
     POST (Some ''sk-ant-1'')
       \<lparr>analysis_reply = Throws ''unused'',
        generation_reply = (\<lambda>i. if i = 1 then Throws ''529 overloaded''
                                  else Message [TextBlock ''We ship daily''])\<rparr>
       [1, 0]
       \<lparr>topic = Some ''AI'', industry = Some ''SaaS'', formats = Some [''email'', ''blog''],
        brandVoice = BrandVoiceAnalysis (js ''warm'') (js ''short'') [js ''ship''] (js ''lists''),
        brandVoiceExamples = None\<rparr>
     = (Success contents (BrandVoiceAnalysis (js ''warm'') (js ''short'') [js ''ship''] (js ''lists'')), calls)
   \<and> length contents = 2
   \<and> contents ! 1
       = \<lparr>format = ''blog'',
          content = ''Error generating blog content: 529 overloaded. Please check your API key and try again.'',
          consistencyScore = None\<rparr>
   \<and> contents ! 0 = \<lparr>format = ''email'', content = ''We ship daily'', consistencyScore = Some 95\<rparr>"
proof -
  let ?gw = "\<lparr>analysis_reply = Throws ''unused'',
        generation_reply = (\<lambda>i. if i = 1 then Throws ''529 overloaded''
                                  else Message [TextBlock ''We ship daily''])\<rparr>"
  let ?bv = "BrandVoiceAnalysis (js ''warm'') (js ''short'') [js ''ship''] (js ''lists'')"
  let ?body = "\<lparr>topic = Some ''AI'', industry = Some ''SaaS'', formats = Some [''email'', ''blog''],
        brandVoice = ?bv, brandVoiceExamples = None\<rparr>"
  have k: "Some ''sk-ant-1'' = Some ''sk-ant-1''" "''sk-ant-1'' \<noteq> []"
    by simp_all
  have t: "topic ?body = Some ''AI''" "''AI'' \<noteq> []"
    by simp_all
  have i: "industry ?body = Some ''SaaS''" "''SaaS'' \<noteq> []"
    by simp_all
  have f: "formats ?body = Some [''email'', ''blog'']"
    by simp
  have o: "set [1, 0] = {..<length [''email'', ''blog'']}"
    by auto
  have p: "(examplesToUse (brandVoiceExamples ?body) = [] \<and> brandVoice ?body = ?bv)
         \<or> (examplesToUse (brandVoiceExamples ?body) \<noteq> []
            \<and> fst (analyzeBrandVoice (analysis_reply ?gw) (examplesToUse (brandVoiceExamples ?body))) = ?bv)"
    by (simp add: examplesToUse_def)
  have b: "?bv = Undefined \<or> ?bv = BrandVoiceAnalysis (js ''warm'') (js ''short'') [js ''ship''] (js ''lists'')"
    by simp
  have fl: "1 < length [''email'', ''blog'']" "generation_reply ?gw 1 = Throws ''529 overloaded''"
    by simp_all
  have ot: "\<forall>j < length [''email'', ''blog'']. j \<noteq> 1 \<longrightarrow>
              (\<exists>bs. generation_reply ?gw j = Message (TextBlock ((\<lambda>j. ''We ship daily'') j) # bs))"
    by simp
  have m: "matchedTermFraction [js ''ship''] ''We ship daily'' = 1"
    by code_simp
  from single_failure_contained_for_typed_profile [OF k t i f o p b fl ot]
  obtain contents calls where r:
    "POST (Some ''sk-ant-1'') ?gw [1, 0] ?body = (Success contents ?bv, calls)"
    "length contents = length [''email'', ''blog'']"
    "contents ! 1 = \<lparr>format = [''email'', ''blog''] ! 1,
                content = ''Error generating '' @ [''email'', ''blog''] ! 1 @ '' content: '' @ ''529 overloaded''
                          @ ''. Please check your API key and try again.'',
                consistencyScore = None\<rparr>"
    "\<forall>j < length [''email'', ''blog'']. j \<noteq> 1 \<longrightarrow>
               contents ! j
                 = \<lparr>format = [''email'', ''blog''] ! j, content = ''We ship daily'',
                    consistencyScore =
                      (if ?bv = Undefined then None
                       else Some (if [js ''ship''] = [] then 75
                                  else min 95 (70 + 25 * matchedTermFraction [js ''ship''] ''We ship daily'')))\<rparr>"
    by blast
  from r(4) have "contents ! 0 = \<lparr>format = ''email'', content = ''We ship daily'', consistencyScore = Some 95\<rparr>"
    by (simp add: m BrandVoiceAnalysis_not_Undefined)
  with r(1-3) show ?thesis
    by (intro exI [of _ contents] exI [of _ calls]) simp
qed

text \<open>
  Claim C5. When the gateway fails for exactly one format, every other entry is to carry
  its generated text and its score. It does not when the analysis of the examples holds a
  term that is not a string, which the analyzer lets through unchecked (see C3): here the
  gateway answers the email call with text and throws for the blog, and the entry of the
  email is an error text as well, the TypeError of \<^verbatim>\<open>term.toLowerCase\<close>.
\<close>

theorem untyped_terms_spoil_every_format:
  \<open>POST (Some ''sk-ant-1'')
      \<lparr>analysis_reply = Message [TextBlock ''{"tone":"direct","style":"short","terminology":["Q3",2024],"structure":"lists"}''],
       generation_reply = (\<lambda>i. if i = 1 then Throws ''529 overloaded''
                                 else Message [TextBlock ''The Q3 results are in.''])\<rparr>
      [1, 0]
      \<lparr>topic = Some ''AI'', industry = Some ''SaaS'', formats = Some [''email'', ''blog''],
       brandVoice = Undefined, brandVoiceExamples = Some [Str (js ''We ship fast.'')]\<rparr>
    = (Success
         [\<lparr>format = ''email'',
           content = ''Error generating email content: term.toLowerCase is not a function. Please check your API key and try again.'',
           consistencyScore = None\<rparr>,
          \<lparr>format = ''blog'',
           content = ''Error generating blog content: 529 overloaded. Please check your API key and try again.'',
           consistencyScore = None\<rparr>]
         (Obj [(js ''tone'', Str (js ''direct'')), (js ''style'', Str (js ''short'')),
               (js ''terminology'', Arr [Str (js ''Q3''), Num 2024]), (js ''structure'', Str (js ''lists''))]),
       [AnalysisCall [Obj [(js ''type'', Str (js ''text'')), (js ''content'', Str (js ''We ship fast.''))]],
        GenerationCall ''email'', GenerationCall ''blog''])\<close>
  by code_simp

subsection \<open>The analyzer\<close>

lemma analyzeBrandVoice_no_examples: "analyzeBrandVoice reply [] = (default_profile, [])"
  by (simp add: analyzeBrandVoice_def)

text \<open>
  Claim C2. For a list with no valid example the analyzer is to return the default profile
  without a gateway call. It does so for the empty list (\<open>analyzeBrandVoice_no_examples\<close>).
  For a list whose only element has empty content it does not: the emptiness test of line 12
  stands before the filter of line 30, so the gateway is called with no example at all and
  its answer is returned.
\<close>

theorem empty_examples_reach_the_gateway:
  \<open>analyzeBrandVoice
      (Message [TextBlock ''{"tone":"playful","style":"emoji-heavy","terminology":["yay"],"structure":"one-liners"}''])
      [Obj [(js ''type'', Str (js ''text'')), (js ''content'', Str [])]]
    = (Obj [(js ''tone'', Str (js ''playful'')), (js ''style'', Str (js ''emoji-heavy'')),
            (js ''terminology'', Arr [Str (js ''yay'')]), (js ''structure'', Str (js ''one-liners''))],
       [AnalysisCall []])\<close>
  by code_simp

text \<open>
  Claim C3. Every profile returned by the analyzer is to have the four fields. It has not:
  a reply that parses is returned as it is, here an object with a tone only. The lemma after
  the theorem follows that object into generate mode, where the template of
  \<open>generateContentForFormat\<close> reads \<^verbatim>\<open>terminology.join\<close> of \<^verbatim>\<open>undefined\<close> and the
  request ends with status 500.
\<close>

theorem partial_analysis_is_returned:
  \<open>analyzeBrandVoice (Message [TextBlock ''{"tone":"casual"}'']) [Str (js ''We ship fast.'')]
    = (Obj [(js ''tone'', Str (js ''casual''))],
       [AnalysisCall [Obj [(js ''type'', Str (js ''text'')), (js ''content'', Str (js ''We ship fast.''))]]])\<close>
  by code_simp

lemma partial_analysis_breaks_generation:
  \<open>POST (Some ''sk-ant-1'')
      \<lparr>analysis_reply = Message [TextBlock ''{"tone":"casual"}''],
       generation_reply = (\<lambda>i. Message [TextBlock ''Ten ideas''])\<rparr>
      [0]
      \<lparr>topic = Some ''AI'', industry = Some ''SaaS'', formats = Some [''blog''],
       brandVoice = Undefined, brandVoiceExamples = Some [Str (js ''We ship fast.'')]\<rparr>
    = (Failure 500 ''Internal server error: Cannot read properties of undefined (reading 'join')'',
       [AnalysisCall [Obj [(js ''type'', Str (js ''text'')), (js ''content'', Str (js ''We ship fast.''))]]])\<close>
  by code_simp






lemma longest_close_after:
  "CHR ''}'' \<notin> set xs \<Longrightarrow> longest_close (xs @ ys) = map_option ((@) xs) (longest_close ys)"
proof (induction xs)
  case Nil
  show ?case
    by (cases "longest_close ys") simp_all
next
  case (Cons x xs)
  then show ?case
    by (cases "longest_close ys") auto
qed

lemma longest_close_none: "CHR ''}'' \<notin> set zs \<Longrightarrow> longest_close zs = None"
  using longest_close_after [of zs "[]"] by simp




lemma jsonMatch_at_no_fence: "c \<noteq> CHR 0x60 \<Longrightarrow> jsonMatch_at (c # cs) = None"
  by (simp add: jsonMatch_at_def fence_def)
















text \<open>
  Nor is every fenced object extracted: of two fenced objects the match runs from the first
  opening brace to the last closing brace before a fence, which does not parse.
\<close>

lemma two_fenced_objects_give_default:
  \<open>fst (analyzeBrandVoice
          (Message [TextBlock (fence @ ''json {"tone":"warm"} '' @ fence @ '' or '' @ fence
                                @ ''json {"tone":"cool"} '' @ fence)])
          [Str (js ''We ship fast.'')])
     = default_profile\<close>
  by code_simp

end
